theory Spec2Isabelle
  imports Complex_Main
begin

section \<open>The chain simulation of \<open>elastic_chain/simulation.py\<close>\<close>

text \<open>
  The program keeps a list of ring objects and, on every tick, first moves each ring
  and then walks over the adjacent index pairs, calling \<open>collide\<close> on some of them.

  Modelling decisions.
  \<^item> Python's numbers (the floats \<open>y\<close>, \<open>vy\<close>, \<open>r\<close>, \<open>a\<close>, \<open>dt\<close>) are the real numbers:
    rounding is not modelled. The integers \<open>N\<close> and the list indices are \<open>int\<close>.
  \<^item> A ring object is a record. Its class (\<open>PassiveRing\<close> or \<open>ActiveRing\<close>, the latter
    with the attribute \<open>a\<close>) is the field \<open>cls\<close>; the dispatch of \<open>self._move\<close> is a case
    distinction on it. Of the attributes inherited from matplotlib's \<open>Circle\<close> only
    \<open>center\<close> and the colour are kept.
  \<^item> The list \<open>self.rings\<close> owns the ring objects, each made by a constructor call of
    its own, so a position of the list stands for the object stored there. \<open>collide\<close>
    mutates the two objects it is given: the model takes the list and the two
    positions and performs every assignment of the source as a list update, in the
    source's order.
  \<^item> \<open>self.rings[i]\<close> raises \<open>IndexError\<close> out of range and counts a negative index from
    the end; the model returns the error as a value.
  \<^item> \<open>axis.add_patch\<close> and the animation driver belong to the plotting library and are
    left out; \<open>update\<close> ignores its argument \<open>frame\<close>.
\<close>

subsection \<open>Rings\<close>

definition g :: real where
  "g = -1"

datatype ring_class = PassiveRing | ActiveRing real

record ring =
  cls :: ring_class
  center :: "real \<times> real"
  color :: string
  y :: real
  vy :: real
  r :: real

text \<open>\<open>RingInterface.__init__(self, y, r, color)\<close>; the class of \<open>self\<close> comes first.\<close>

definition RingInterface_init :: "ring_class \<Rightarrow> real \<Rightarrow> real \<Rightarrow> string \<Rightarrow> ring" where
  "RingInterface_init c y0 r0 col =
     \<lparr>cls = c, center = (1 / 2, y0), color = col, y = y0, vy = 0, r = r0\<rparr>"

text \<open>\<open>PassiveRing(y, r=r)\<close>: the colour is the default \<open>"black"\<close>.\<close>

definition PassiveRing_init :: "real \<Rightarrow> real \<Rightarrow> ring" where
  "PassiveRing_init y0 r0 = RingInterface_init PassiveRing y0 r0 ''black''"

text \<open>\<open>ActiveRing(y, self_acceleration, r=r)\<close>: stores \<open>a\<close>, colour \<open>"r"\<close>.\<close>

definition ActiveRing_init :: "real \<Rightarrow> real \<Rightarrow> real \<Rightarrow> ring" where
  "ActiveRing_init y0 self_acceleration r0 =
     RingInterface_init (ActiveRing self_acceleration) y0 r0 ''r''"

text \<open>
  \<open>PassiveRing._move\<close> and \<open>ActiveRing._move\<close>: two assignments in sequence; the second
  reads the ring the first one left. The time step is called \<open>tau\<close> here, since \<open>dt\<close> is
  a field of the simulator below.
\<close>

definition PassiveRing_move :: "ring \<Rightarrow> real \<Rightarrow> ring" where
  "PassiveRing_move self tau =
     (let self = self\<lparr>y := y self + (vy self * tau + g * tau ^ 2 / 2)\<rparr>;
          self = self\<lparr>vy := vy self + g * tau\<rparr>
      in self)"

definition ActiveRing_move :: "real \<Rightarrow> ring \<Rightarrow> real \<Rightarrow> ring" where
  "ActiveRing_move acc self tau =
     (let self = self\<lparr>y := y self + (vy self * tau + (g + acc) * tau ^ 2 / 2)\<rparr>;
          self = self\<lparr>vy := vy self + (g + acc) * tau\<rparr>
      in self)"

text \<open>The call \<open>self._move(dt)\<close>, dispatched on the class of the ring.\<close>

definition dispatch_move :: "ring \<Rightarrow> real \<Rightarrow> ring" where
  "dispatch_move self tau =
     (case cls self of
        PassiveRing \<Rightarrow> PassiveRing_move self tau
      | ActiveRing acc \<Rightarrow> ActiveRing_move acc self tau)"

text \<open>\<open>RingInterface.move\<close>: the motion, the floor clamp, then the drawn centre.\<close>

definition move :: "ring \<Rightarrow> real \<Rightarrow> ring" where
  "move self tau =
     (let self = dispatch_move self tau;
          self = (if y self - r self \<le> 0 then self\<lparr>y := r self, vy := 0\<rparr> else self);
          self = self\<lparr>center := (fst (center self), y self)\<rparr>
      in self)"

subsection \<open>The simulator\<close>

datatype error = IndexError

record Simulator =
  rings :: "ring list"
  pairs :: "(int \<times> int) list"
  dt :: real

text \<open>\<open>range(n)\<close> as the list it runs through: empty when \<open>n \<le> 0\<close>.\<close>

definition py_range :: "int \<Rightarrow> int list" where
  "py_range n = [0..n - 1]"

text \<open>
  \<open>Simulator.__init__(N, F, axis, dt)\<close>. The first loop appends one passive ring for
  each element of \<open>range(N-1)\<close>; no statement of the constructor inspects \<open>N\<close>, \<open>F\<close> or
  \<open>dt\<close>, and none raises.
\<close>

definition Simulator_init :: "int \<Rightarrow> real \<Rightarrow> real \<Rightarrow> Simulator" where
  "Simulator_init N F tau =
     (let r0 = 1 / 10;
          rs = foldl (\<lambda>rs i. rs @ [PassiveRing_init r0 r0]) [] (py_range (N - 1));
          rs = rs @ [ActiveRing_init r0 F r0]
      in \<lparr>rings = rs,
          pairs = map (\<lambda>i. (i, i + 1)) (rev (py_range (N - 1))),
          dt = tau\<rparr>)"

text \<open>
  \<open>self.rings[i]\<close>: the position an index denotes, or \<open>IndexError\<close>.
\<close>

definition getitem :: "ring list \<Rightarrow> int \<Rightarrow> error + nat" where
  "getitem rs i =
     (let n = int (length rs);
          k = (if i < 0 then n + i else i)
      in if 0 \<le> k \<and> k < n then Inr (nat k) else Inl IndexError)"

text \<open>
  \<open>Simulator.collide(ring1, ring2)\<close> on the rings at positions \<open>ring1\<close> and \<open>ring2\<close> of
  the list \<open>h\<close>. Every line of the source is one binding, in the source's order; the
  swap renames the two local references and moves nothing in the list.
\<close>

definition collide :: "ring list \<Rightarrow> nat \<Rightarrow> nat \<Rightarrow> ring list" where
  "collide h ring1 ring2 =
     (let v = (vy (h ! ring1) + vy (h ! ring2)) / 2;
          h = h[ring1 := (h ! ring1)\<lparr>vy := v\<rparr>];
          h = h[ring2 := (h ! ring2)\<lparr>vy := v\<rparr>];
          (ring1, ring2) = (if y (h ! ring2) < y (h ! ring1) then (ring2, ring1)
                            else (ring1, ring2));
          y_av = (y (h ! ring1) + r (h ! ring1) + y (h ! ring2) - r (h ! ring2)) / 2;
          h = h[ring1 := (h ! ring1)\<lparr>y := y_av - r (h ! ring1)\<rparr>];
          h = h[ring2 := (h ! ring2)\<lparr>y := y_av + r (h ! ring2)\<rparr>]
      in h)"

text \<open>
  The second loop of \<open>Simulator.update\<close>, over the pairs still to visit: a pair whose
  centres are at most \<open>r1 + r2\<close> apart is passed over by \<open>continue\<close>, every other pair
  is handed to \<open>collide\<close>.
\<close>

fun update_pairs :: "(int \<times> int) list \<Rightarrow> ring list \<Rightarrow> error + ring list" where
  "update_pairs [] h = Inr h"
| "update_pairs ((i, j) # ps) h =
     (case getitem h i of
        Inl e \<Rightarrow> Inl e
      | Inr ring1 \<Rightarrow>
          (case getitem h j of
             Inl e \<Rightarrow> Inl e
           | Inr ring2 \<Rightarrow>
               if \<bar>y (h ! ring1) - y (h ! ring2)\<bar> \<le> r (h ! ring1) + r (h ! ring2)
               then update_pairs ps h
               else update_pairs ps (collide h ring1 ring2)))"

text \<open>\<open>Simulator.update(frame)\<close>: move every ring, then the loop over the pairs.\<close>

definition update :: "Simulator \<Rightarrow> error + Simulator" where
  "update self =
     (let h = map (\<lambda>ring. move ring (dt self)) (rings self)
      in case update_pairs (pairs self) h of
           Inl e \<Rightarrow> Inl e
         | Inr h' \<Rightarrow> Inr (self\<lparr>rings := h'\<rparr>))"

text \<open>
  The animation driver calls \<open>update\<close> once per frame; \<open>ticks n\<close> is \<open>n\<close> such calls in
  a row, stopping at the first error.
\<close>

fun ticks :: "nat \<Rightarrow> Simulator \<Rightarrow> error + Simulator" where
  "ticks 0 self = Inr self"
| "ticks (Suc n) self =
     (case update self of Inl e \<Rightarrow> Inl e | Inr self' \<Rightarrow> ticks n self')"

subsection \<open>The motion law in the words of the specification\<close>

text \<open>
  The specification writes both motion laws as \<open>y += vy*dt + acc*dt\<^sup>2/2; vy += acc*dt\<close>
  with \<open>acc = g\<close> for a passive and \<open>acc = g + a\<close> for an active ring. \<open>spec_motion\<close> is
  that formula, both fields computed from the ring before the step; it is compared with
  the source's \<open>_move\<close> methods below.
\<close>

definition spec_motion :: "real \<Rightarrow> ring \<Rightarrow> real \<Rightarrow> ring" where
  "spec_motion acc self tau =
     self\<lparr>y := y self + vy self * tau + acc * tau ^ 2 / 2, vy := vy self + acc * tau\<rparr>"

section \<open>Properties\<close>

subsection \<open>What \<open>collide\<close> does to the list\<close>

lemmas ring_inits = PassiveRing_init_def ActiveRing_init_def RingInterface_init_def

lemma collide_length: "length (collide h i j) = length h"
  by (simp add: collide_def Let_def split: prod.splits)

lemma collide_other:
  "k \<noteq> i \<Longrightarrow> k \<noteq> j \<Longrightarrow> collide h i j ! k = h ! k"
  by (simp add: collide_def Let_def split: prod.splits if_splits)

lemma collide_vy:
  assumes "i < length h" "j < length h" "i \<noteq> j"
  shows "vy (collide h i j ! i) = (vy (h ! i) + vy (h ! j)) / 2"
    and "vy (collide h i j ! j) = (vy (h ! i) + vy (h ! j)) / 2"
  using assms by (simp_all add: collide_def Let_def)

lemma collide_r:
  assumes "i < length h" "j < length h" "i \<noteq> j"
  shows "r (collide h i j ! i) = r (h ! i)"
    and "r (collide h i j ! j) = r (h ! j)"
  using assms by (simp_all add: collide_def Let_def)

text \<open>The new heights when the first ring is the lower one (no swap) ...\<close>

lemma collide_y_le:
  assumes "i < length h" "j < length h" "i \<noteq> j" "\<not> y (h ! j) < y (h ! i)"
  shows "y (collide h i j ! i)
           = (y (h ! i) + r (h ! i) + y (h ! j) - r (h ! j)) / 2 - r (h ! i)"
    and "y (collide h i j ! j)
           = (y (h ! i) + r (h ! i) + y (h ! j) - r (h ! j)) / 2 + r (h ! j)"
  using assms by (simp_all add: collide_def Let_def)

text \<open>... and when the second ring is the lower one (the references are swapped).\<close>

lemma collide_y_gt:
  assumes "i < length h" "j < length h" "i \<noteq> j" "y (h ! j) < y (h ! i)"
  shows "y (collide h i j ! j)
           = (y (h ! j) + r (h ! j) + y (h ! i) - r (h ! i)) / 2 - r (h ! j)"
    and "y (collide h i j ! i)
           = (y (h ! j) + r (h ! j) + y (h ! i) - r (h ! i)) / 2 + r (h ! i)"
  using assms by (simp_all add: collide_def Let_def)

text \<open>
  Whatever the rings were before, the ring that was higher ends exactly \<open>r1 + r2\<close>
  above the one that was lower.
\<close>

lemma collide_gap:
  assumes "i < length h" "j < length h" "i \<noteq> j"
  shows "(if y (h ! j) < y (h ! i)
          then y (collide h i j ! i) - y (collide h i j ! j)
          else y (collide h i j ! j) - y (collide h i j ! i)) = r (h ! i) + r (h ! j)"
proof (cases "y (h ! j) < y (h ! i)")
  case True
  from collide_y_gt [OF assms True] True show ?thesis by simp
next
  case False
  from collide_y_le [OF assms False] False show ?thesis by simp
qed

text \<open>
  Claim C4. For two different rings of the list with \<open>|yA - yB| \<le> rA + rB\<close>, after
  \<open>collide\<close> both velocities are the average \<open>(vA + vB) / 2\<close> of the velocities before,
  and the rings are exactly tangent: the higher centre minus the lower centre is
  \<open>rA + rB\<close>. The radii are untouched. (Over the reals; rounding is not modelled.)
\<close>

theorem collide_tangent_average:
  assumes "i < length h" "j < length h" "i \<noteq> j"
    and "\<bar>y (h ! i) - y (h ! j)\<bar> \<le> r (h ! i) + r (h ! j)"
  shows "vy (collide h i j ! i) = (vy (h ! i) + vy (h ! j)) / 2
       \<and> vy (collide h i j ! j) = (vy (h ! i) + vy (h ! j)) / 2
       \<and> max (y (collide h i j ! i)) (y (collide h i j ! j))
           - min (y (collide h i j ! i)) (y (collide h i j ! j)) = r (h ! i) + r (h ! j)
       \<and> r (collide h i j ! i) = r (h ! i) \<and> r (collide h i j ! j) = r (h ! j)"
proof -
  have nonneg: "0 \<le> r (h ! i) + r (h ! j)"
    using assms(4) by linarith
  have gap: "max (y (collide h i j ! i)) (y (collide h i j ! j))
           - min (y (collide h i j ! i)) (y (collide h i j ! j)) = r (h ! i) + r (h ! j)"
    using collide_gap [OF assms(1-3)] nonneg by (simp split: if_splits)
  show ?thesis
    using collide_vy [OF assms(1-3)] collide_r [OF assms(1-3)] gap by simp
qed

text \<open>
  The specification's own example: radii \<open>0.1\<close>, heights \<open>0.5\<close> and \<open>0.55\<close>; the first
  ring moves at speed 1, the second rests.
\<close>

theorem collide_tangent_average_witness:
  "\<bar>y ([(PassiveRing_init (1 / 2) (1 / 10))\<lparr>vy := 1\<rparr>, PassiveRing_init (11 / 20) (1 / 10)] ! 0)
     - y ([(PassiveRing_init (1 / 2) (1 / 10))\<lparr>vy := 1\<rparr>, PassiveRing_init (11 / 20) (1 / 10)] ! 1)\<bar>
     \<le> 1 / 10 + 1 / 10
   \<and> vy (collide [(PassiveRing_init (1 / 2) (1 / 10))\<lparr>vy := 1\<rparr>,
                   PassiveRing_init (11 / 20) (1 / 10)] 0 1 ! 0) = 1 / 2
   \<and> vy (collide [(PassiveRing_init (1 / 2) (1 / 10))\<lparr>vy := 1\<rparr>,
                   PassiveRing_init (11 / 20) (1 / 10)] 0 1 ! 1) = 1 / 2
   \<and> max (y (collide [(PassiveRing_init (1 / 2) (1 / 10))\<lparr>vy := 1\<rparr>,
                       PassiveRing_init (11 / 20) (1 / 10)] 0 1 ! 0))
          (y (collide [(PassiveRing_init (1 / 2) (1 / 10))\<lparr>vy := 1\<rparr>,
                       PassiveRing_init (11 / 20) (1 / 10)] 0 1 ! 1))
     - min (y (collide [(PassiveRing_init (1 / 2) (1 / 10))\<lparr>vy := 1\<rparr>,
                       PassiveRing_init (11 / 20) (1 / 10)] 0 1 ! 0))
          (y (collide [(PassiveRing_init (1 / 2) (1 / 10))\<lparr>vy := 1\<rparr>,
                       PassiveRing_init (11 / 20) (1 / 10)] 0 1 ! 1)) = 1 / 5"
  using collide_tangent_average
    [of 0 "[(PassiveRing_init (1 / 2) (1 / 10))\<lparr>vy := 1\<rparr>, PassiveRing_init (11 / 20) (1 / 10)]" 1]
  by (simp add: ring_inits)

text \<open>
  Claim C10. \<open>collide\<close> conserves the total momentum of the two rings (their masses
  being equal): the sum of the two velocities after it is the sum before it.
\<close>

theorem collide_conserves_momentum:
  assumes "i < length h" "j < length h" "i \<noteq> j"
  shows "vy (collide h i j ! i) + vy (collide h i j ! j) = vy (h ! i) + vy (h ! j)"
  using collide_vy [OF assms] by simp

theorem collide_conserves_momentum_witness:
  "vy (collide [(PassiveRing_init (1 / 2) (1 / 10))\<lparr>vy := 3\<rparr>,
                (ActiveRing_init 1 10 (1 / 10))\<lparr>vy := - 1\<rparr>] 0 1 ! 0)
   + vy (collide [(PassiveRing_init (1 / 2) (1 / 10))\<lparr>vy := 3\<rparr>,
                  (ActiveRing_init 1 10 (1 / 10))\<lparr>vy := - 1\<rparr>] 0 1 ! 1) = 2"
  using collide_conserves_momentum
    [of 0 "[(PassiveRing_init (1 / 2) (1 / 10))\<lparr>vy := 3\<rparr>,
            (ActiveRing_init 1 10 (1 / 10))\<lparr>vy := - 1\<rparr>]" 1]
  by (simp add: ring_inits)

subsection \<open>Moving one ring\<close>

lemma dispatch_move_r: "r (dispatch_move self tau) = r self"
  by (simp add: dispatch_move_def PassiveRing_move_def ActiveRing_move_def Let_def
      split: ring_class.splits)

text \<open>
  Claim C3. For every ring and every \<open>dt > 0\<close>, after \<open>move(dt)\<close> the ring satisfies
  \<open>y - r \<ge> 0\<close>: when the motion of its class leaves \<open>y - r \<le> 0\<close>, \<open>y\<close> becomes exactly
  \<open>r\<close> and \<open>vy\<close> becomes 0; otherwise \<open>y\<close> and \<open>vy\<close> are what the motion computed.
\<close>

theorem move_floor_clamp:
  assumes "0 < tau"
  shows "0 \<le> y (move self tau) - r (move self tau)
       \<and> r (move self tau) = r self
       \<and> (y (dispatch_move self tau) - r (dispatch_move self tau) \<le> 0 \<longrightarrow>
            y (move self tau) = r self \<and> vy (move self tau) = 0)
       \<and> (\<not> y (dispatch_move self tau) - r (dispatch_move self tau) \<le> 0 \<longrightarrow>
            y (move self tau) = y (dispatch_move self tau)
          \<and> vy (move self tau) = vy (dispatch_move self tau))"
  by (simp add: move_def Let_def dispatch_move_r)

text \<open>
  Both branches at \<open>dt = 0.01\<close>: a passive ring resting on the floor is clamped, the
  active ring with \<open>a = 10\<close> leaves the floor.
\<close>

theorem move_floor_clamp_witness:
  "(0::real) < 1 / 100
   \<and> y (move (PassiveRing_init (1 / 10) (1 / 10)) (1 / 100)) = 1 / 10
   \<and> vy (move (PassiveRing_init (1 / 10) (1 / 10)) (1 / 100)) = 0
   \<and> y (move (ActiveRing_init (1 / 10) 10 (1 / 10)) (1 / 100)) = 2009 / 20000
   \<and> vy (move (ActiveRing_init (1 / 10) 10 (1 / 10)) (1 / 100)) = 9 / 100"
  using move_floor_clamp [of "1 / 100" "PassiveRing_init (1 / 10) (1 / 10)"]
    move_floor_clamp [of "1 / 100" "ActiveRing_init (1 / 10) 10 (1 / 10)"]
  by (simp add: ring_inits dispatch_move_def PassiveRing_move_def ActiveRing_move_def
      g_def Let_def power2_eq_square)

text \<open>
  Claim C8. The gravitational constant is \<open>g = -1\<close>, the same for every ring, and the
  motion of a ring is the specification's formula: a passive ring performs
  \<open>y += vy*dt + g*dt\<^sup>2/2\<close> then \<open>vy += g*dt\<close>, an active ring with self-acceleration
  \<open>a\<close> performs \<open>y += vy*dt + (g+a)*dt\<^sup>2/2\<close> then \<open>vy += (g+a)*dt\<close>.
\<close>

theorem move_is_spec_motion:
  "g = - 1
   \<and> (cls self = PassiveRing \<longrightarrow> dispatch_move self tau = spec_motion g self tau)
   \<and> (cls self = ActiveRing acc \<longrightarrow> dispatch_move self tau = spec_motion (g + acc) self tau)"
  by (simp add: g_def dispatch_move_def PassiveRing_move_def ActiveRing_move_def
      spec_motion_def Let_def algebra_simps)

theorem move_is_spec_motion_witness:
  "dispatch_move (PassiveRing_init 1 (1 / 10)) 2
     = (PassiveRing_init 1 (1 / 10))\<lparr>y := - 1, vy := - 2\<rparr>
   \<and> dispatch_move (ActiveRing_init 1 10 (1 / 10)) 2
     = (ActiveRing_init 1 10 (1 / 10))\<lparr>y := 19, vy := 18\<rparr>"
  using move_is_spec_motion [of "PassiveRing_init 1 (1 / 10)" 2]
    move_is_spec_motion [of "ActiveRing_init 1 10 (1 / 10)" 2 10]
  by (simp add: ring_inits spec_motion_def)

subsection \<open>\<open>collide\<close> and the floor\<close>

text \<open>
  Claim C9. \<open>collide\<close> has no floor clamp: for two different rings of the list it always
  leaves both velocities at the average and both heights at the values of the
  separation formula, whatever their sign, so it never resets \<open>y\<close> to \<open>r\<close> or \<open>vy\<close> to 0.
  And there is a pair of rings with \<open>|yA - yB| \<le> rA + rB\<close>, both on or above the floor,
  where \<open>collide\<close> leaves a ring with \<open>y - r < 0\<close> (and with \<open>y \<noteq> r\<close>, \<open>vy \<noteq> 0\<close>).
\<close>

theorem collide_no_floor_clamp:
  assumes "i < length h" "j < length h" "i \<noteq> j"
  shows "vy (collide h i j ! i) = (vy (h ! i) + vy (h ! j)) / 2
       \<and> vy (collide h i j ! j) = (vy (h ! i) + vy (h ! j)) / 2
       \<and> (\<not> y (h ! j) < y (h ! i) \<longrightarrow>
            y (collide h i j ! i)
              = (y (h ! i) + r (h ! i) + y (h ! j) - r (h ! j)) / 2 - r (h ! i)
          \<and> y (collide h i j ! j)
              = (y (h ! i) + r (h ! i) + y (h ! j) - r (h ! j)) / 2 + r (h ! j))
       \<and> (y (h ! j) < y (h ! i) \<longrightarrow>
            y (collide h i j ! j)
              = (y (h ! j) + r (h ! j) + y (h ! i) - r (h ! i)) / 2 - r (h ! j)
          \<and> y (collide h i j ! i)
              = (y (h ! j) + r (h ! j) + y (h ! i) - r (h ! i)) / 2 + r (h ! i))
       \<and> (\<exists>h' a b. a < length h' \<and> b < length h' \<and> a \<noteq> b
            \<and> \<bar>y (h' ! a) - y (h' ! b)\<bar> \<le> r (h' ! a) + r (h' ! b)
            \<and> 0 \<le> y (h' ! a) - r (h' ! a) \<and> 0 \<le> y (h' ! b) - r (h' ! b)
            \<and> y (collide h' a b ! a) - r (collide h' a b ! a) < 0
            \<and> y (collide h' a b ! a) \<noteq> r (collide h' a b ! a)
            \<and> vy (collide h' a b ! a) \<noteq> 0)"
proof -
  let ?H = "[PassiveRing_init (1 / 10) (1 / 10),
             (ActiveRing_init (1 / 10) 10 (1 / 10))\<lparr>y := 1 / 5, vy := 1\<rparr>]"
  have below: "(0::nat) < length ?H \<and> (1::nat) < length ?H \<and> (0::nat) \<noteq> 1
      \<and> \<bar>y (?H ! 0) - y (?H ! 1)\<bar> \<le> r (?H ! 0) + r (?H ! 1)
      \<and> 0 \<le> y (?H ! 0) - r (?H ! 0) \<and> 0 \<le> y (?H ! 1) - r (?H ! 1)
      \<and> y (collide ?H 0 1 ! 0) - r (collide ?H 0 1 ! 0) < 0
      \<and> y (collide ?H 0 1 ! 0) \<noteq> r (collide ?H 0 1 ! 0)
      \<and> vy (collide ?H 0 1 ! 0) \<noteq> 0"
    by (simp add: collide_def Let_def ring_inits)
  have ex: "\<exists>h' a b. a < length h' \<and> b < length h' \<and> a \<noteq> b
            \<and> \<bar>y (h' ! a) - y (h' ! b)\<bar> \<le> r (h' ! a) + r (h' ! b)
            \<and> 0 \<le> y (h' ! a) - r (h' ! a) \<and> 0 \<le> y (h' ! b) - r (h' ! b)
            \<and> y (collide h' a b ! a) - r (collide h' a b ! a) < 0
            \<and> y (collide h' a b ! a) \<noteq> r (collide h' a b ! a)
            \<and> vy (collide h' a b ! a) \<noteq> 0"
    using below by blast
  show ?thesis
    using collide_vy [OF assms] collide_y_le [OF assms] collide_y_gt [OF assms] ex
    by simp
qed

text \<open>
  A ring resting on the floor and a ring one radius above it: the lower one ends at
  height \<open>0.05\<close> with radius \<open>0.1\<close>, moving at speed \<open>0.5\<close>.
\<close>

theorem collide_no_floor_clamp_witness:
  "y (collide [PassiveRing_init (1 / 10) (1 / 10),
               (ActiveRing_init (1 / 10) 10 (1 / 10))\<lparr>y := 1 / 5, vy := 1\<rparr>] 0 1 ! 0)
     = 1 / 20
   \<and> y (collide [PassiveRing_init (1 / 10) (1 / 10),
                 (ActiveRing_init (1 / 10) 10 (1 / 10))\<lparr>y := 1 / 5, vy := 1\<rparr>] 0 1 ! 1)
     = 1 / 4
   \<and> vy (collide [PassiveRing_init (1 / 10) (1 / 10),
                  (ActiveRing_init (1 / 10) 10 (1 / 10))\<lparr>y := 1 / 5, vy := 1\<rparr>] 0 1 ! 0)
     = 1 / 2
   \<and> r (collide [PassiveRing_init (1 / 10) (1 / 10),
                 (ActiveRing_init (1 / 10) 10 (1 / 10))\<lparr>y := 1 / 5, vy := 1\<rparr>] 0 1 ! 0)
     = 1 / 10"
  using collide_no_floor_clamp
    [of 0 "[PassiveRing_init (1 / 10) (1 / 10),
            (ActiveRing_init (1 / 10) 10 (1 / 10))\<lparr>y := 1 / 5, vy := 1\<rparr>]" 1]
    collide_r
    [of 0 "[PassiveRing_init (1 / 10) (1 / 10),
            (ActiveRing_init (1 / 10) 10 (1 / 10))\<lparr>y := 1 / 5, vy := 1\<rparr>]" 1]
  by (simp add: ring_inits)

text \<open>
  \<open>update\<close> calls \<open>collide\<close> only on a pair whose centres are more than \<open>r1 + r2\<close> apart.
  On such a pair, with radii that are not negative, rings on or above the floor stay
  on or above it.
\<close>

lemma collide_stretched_keeps_floor:
  assumes "i < length h" "j < length h" "i \<noteq> j"
    and "r (h ! i) + r (h ! j) < \<bar>y (h ! i) - y (h ! j)\<bar>"
    and "0 \<le> r (h ! i)" "0 \<le> r (h ! j)"
    and "0 \<le> y (h ! i) - r (h ! i)" "0 \<le> y (h ! j) - r (h ! j)"
  shows "0 \<le> y (collide h i j ! i) - r (collide h i j ! i)
       \<and> 0 \<le> y (collide h i j ! j) - r (collide h i j ! j)"
proof (cases "y (h ! j) < y (h ! i)")
  case True
  from collide_y_gt [OF assms(1-3) True] collide_r [OF assms(1-3)] True assms(4-8)
  show ?thesis by simp
next
  case False
  from collide_y_le [OF assms(1-3) False] collide_r [OF assms(1-3)] False assms(4-8)
  show ?thesis by simp
qed

subsection \<open>Construction\<close>

lemma foldl_append_const:
  "foldl (\<lambda>rs i. rs @ [p]) acc xs = acc @ replicate (length xs) p"
  by (induction xs arbitrary: acc) (simp_all add: replicate_app_Cons_same)

lemma length_py_range: "length (py_range n) = nat n"
  by (simp add: py_range_def)

lemma nth_py_range: "k < nat n \<Longrightarrow> py_range n ! k = int k"
  by (simp add: py_range_def)

lemma rings_Simulator_init:
  "rings (Simulator_init N F tau)
     = replicate (nat (N - 1)) (PassiveRing_init (1 / 10) (1 / 10))
       @ [ActiveRing_init (1 / 10) F (1 / 10)]"
  by (simp add: Simulator_init_def Let_def foldl_append_const length_py_range)

lemma pairs_Simulator_init:
  "pairs (Simulator_init N F tau) = map (\<lambda>i. (i, i + 1)) (rev (py_range (N - 1)))"
  by (simp add: Simulator_init_def Let_def)

lemma dt_Simulator_init: "dt (Simulator_init N F tau) = tau"
  by (simp add: Simulator_init_def Let_def)

lemma length_pairs_init: "length (pairs (Simulator_init N F tau)) = nat (N - 1)"
  by (simp add: pairs_Simulator_init length_py_range)

lemma nth_pairs_init:
  assumes "k < nat (N - 1)"
  shows "pairs (Simulator_init N F tau) ! k = (N - 2 - int k, N - 1 - int k)"
proof -
  have "rev (py_range (N - 1)) ! k = py_range (N - 1) ! (nat (N - 1) - Suc k)"
    using assms by (simp add: rev_nth length_py_range)
  also have "\<dots> = int (nat (N - 1) - Suc k)"
    using assms by (intro nth_py_range) simp
  also have "\<dots> = N - 2 - int k"
    using assms by simp
  finally show ?thesis
    using assms by (simp add: pairs_Simulator_init length_py_range)
qed

text \<open>
  Claim C6. For every \<open>N \<ge> 1\<close> and every \<open>F\<close> the constructor makes exactly \<open>N\<close> rings:
  those at the indices below \<open>N - 1\<close> are passive, the last one, at index \<open>N - 1\<close>, is
  active with self-acceleration \<open>F\<close>; every ring has the shared radius \<open>0.1\<close>, its
  height equal to its radius and velocity 0.
\<close>

theorem Simulator_init_rings:
  assumes "1 \<le> N"
  shows "int (length (rings (Simulator_init N F tau))) = N
       \<and> (\<forall>k < nat (N - 1). cls (rings (Simulator_init N F tau) ! k) = PassiveRing)
       \<and> cls (rings (Simulator_init N F tau) ! nat (N - 1)) = ActiveRing F
       \<and> (\<forall>k < nat N. r (rings (Simulator_init N F tau) ! k) = 1 / 10
                     \<and> y (rings (Simulator_init N F tau) ! k)
                         = r (rings (Simulator_init N F tau) ! k)
                     \<and> vy (rings (Simulator_init N F tau) ! k) = 0)"
proof -
  let ?P = "PassiveRing_init (1 / 10) (1 / 10)"
  let ?A = "ActiveRing_init (1 / 10) F (1 / 10)"
  have rs: "rings (Simulator_init N F tau) = replicate (nat (N - 1)) ?P @ [?A]"
    by (rule rings_Simulator_init)
  have len: "int (length (rings (Simulator_init N F tau))) = N"
    using assms by (simp add: rs)
  have pas: "cls (rings (Simulator_init N F tau) ! k) = PassiveRing" if "k < nat (N - 1)" for k
    using that by (simp add: rs nth_append ring_inits)
  have act: "cls (rings (Simulator_init N F tau) ! nat (N - 1)) = ActiveRing F"
    by (simp add: rs nth_append ring_inits)
  have fields: "r (rings (Simulator_init N F tau) ! k) = 1 / 10
              \<and> y (rings (Simulator_init N F tau) ! k) = r (rings (Simulator_init N F tau) ! k)
              \<and> vy (rings (Simulator_init N F tau) ! k) = 0" if "k < nat N" for k
  proof (cases "k < nat (N - 1)")
    case True
    then show ?thesis by (simp add: rs nth_append ring_inits)
  next
    case False
    with that assms have "k = nat (N - 1)" by linarith
    then show ?thesis by (simp add: rs nth_append ring_inits)
  qed
  show ?thesis
    using len pas act fields by blast
qed

theorem Simulator_init_rings_witness:
  "(1::int) \<le> 3
   \<and> rings (Simulator_init 3 10 (1 / 100))
       = [PassiveRing_init (1 / 10) (1 / 10), PassiveRing_init (1 / 10) (1 / 10),
          ActiveRing_init (1 / 10) 10 (1 / 10)]
   \<and> int (length (rings (Simulator_init 3 10 (1 / 100)))) = 3
   \<and> cls (rings (Simulator_init 3 10 (1 / 100)) ! nat (3 - 1)) = ActiveRing 10"
  using Simulator_init_rings [of 3 10 "1 / 100"]
  by (simp add: rings_Simulator_init numeral_2_eq_2)

text \<open>
  Claim C7 as stated does not hold: the constructor rejects nothing. With \<open>N = 0\<close> and
  \<open>dt = -1\<close> it completes and returns a chain of one active ring.
\<close>

theorem Simulator_init_accepts_bad_input:
  "Simulator_init 0 10 (- 1)
     = \<lparr>rings = [\<lparr>cls = ActiveRing 10, center = (1 / 2, 1 / 10), color = ''r'',
                  y = 1 / 10, vy = 0, r = 1 / 10\<rparr>],
        pairs = [], dt = - 1\<rparr>"
  by (simp add: Simulator_init_def Let_def py_range_def ring_inits)

text \<open>
  Claim C7, amended. The constructor validates nothing and completes on every input:
  for \<open>N \<le> 0\<close> it returns the chain of a single active ring with no pairs; \<open>dt\<close> is stored
  as given, whatever its sign; the radius is not an input but the constant \<open>0.1\<close>.
\<close>

theorem Simulator_init_no_validation:
  "(N \<le> 0 \<longrightarrow>
      Simulator_init N F tau
        = \<lparr>rings = [ActiveRing_init (1 / 10) F (1 / 10)], pairs = [], dt = tau\<rparr>)
   \<and> dt (Simulator_init N F tau) = tau
   \<and> (\<forall>ring \<in> set (rings (Simulator_init N F tau)). r ring = 1 / 10)"
  by (auto simp add: Simulator_init_def Let_def py_range_def foldl_append_const ring_inits)

theorem Simulator_init_no_validation_witness:
  "(- 5::int) \<le> 0
   \<and> Simulator_init (- 5) 2 0
       = \<lparr>rings = [ActiveRing_init (1 / 10) 2 (1 / 10)], pairs = [], dt = 0\<rparr>"
  using Simulator_init_no_validation [of "- 5" 2 0]
  by simp

subsection \<open>A chain without pairs\<close>

lemma update_no_pairs:
  "pairs self = [] \<Longrightarrow>
   update self = Inr (self\<lparr>rings := map (\<lambda>ring. move ring (dt self)) (rings self)\<rparr>)"
  by (simp add: update_def Let_def)

lemma ticks_no_pairs:
  "pairs self = [] \<Longrightarrow>
   ticks n self = Inr (self\<lparr>rings := map ((\<lambda>ring. move ring (dt self)) ^^ n) (rings self)\<rparr>)"
proof (induction n arbitrary: self)
  case 0
  then show ?case by simp
next
  case (Suc n)
  let ?s = "self\<lparr>rings := map (\<lambda>ring. move ring (dt self)) (rings self)\<rparr>"
  have "ticks (Suc n) self = ticks n ?s"
    using Suc.prems by (simp add: update_no_pairs)
  also have "\<dots> = Inr (?s\<lparr>rings := map ((\<lambda>ring. move ring (dt ?s)) ^^ n) (rings ?s)\<rparr>)"
    using Suc.prems by (intro Suc.IH) simp
  finally have run: "ticks (Suc n) self
      = Inr (self\<lparr>rings :=
               map (\<lambda>x. ((\<lambda>ring. move ring (dt self)) ^^ n) (move x (dt self))) (rings self)\<rparr>)"
    by (simp add: comp_def)
  have sw: "((\<lambda>ring. move ring (dt self)) ^^ n) (move x (dt self))
              = ((\<lambda>ring. move ring (dt self)) ^^ Suc n) x" for x
    using funpow_swap1 [of "\<lambda>ring. move ring (dt self)" n x] by simp
  show ?case
    unfolding run sw ..
qed

text \<open>
  Claim C5. For every \<open>N \<ge> 1\<close> the constructed \<open>pairs\<close> has \<open>N - 1\<close> entries and its
  \<open>k\<close>-th entry is \<open>(N-2-k, N-1-k)\<close>: the pairs \<open>(i, i+1)\<close> for \<open>i = N-2, N-3, ..., 0\<close>. For
  \<open>N = 3\<close> it is \<open>[(1,2), (0,1)]\<close>. For \<open>N = 1\<close> it is empty, and then no tick ever
  calls \<open>collide\<close>: after any number of ticks the single active ring is what \<open>move\<close>
  alone, applied that many times, makes of it.
\<close>

theorem pairs_reverse_order:
  "(1 \<le> N \<longrightarrow>
      length (pairs (Simulator_init N F tau)) = nat (N - 1)
    \<and> (\<forall>k < nat (N - 1). pairs (Simulator_init N F tau) ! k = (N - 2 - int k, N - 1 - int k)))
   \<and> pairs (Simulator_init 3 F tau) = [(1, 2), (0, 1)]
   \<and> pairs (Simulator_init 1 F tau) = []
   \<and> ticks n (Simulator_init 1 F tau)
       = Inr \<lparr>rings = [((\<lambda>ring. move ring tau) ^^ n) (ActiveRing_init (1 / 10) F (1 / 10))],
              pairs = [], dt = tau\<rparr>"
proof -
  have three: "pairs (Simulator_init 3 F tau) = [(1, 2), (0, 1)]"
    by (simp add: pairs_Simulator_init py_range_def upto.simps)
  have one: "pairs (Simulator_init 1 F tau) = []"
    by (simp add: pairs_Simulator_init py_range_def)
  have run: "ticks n (Simulator_init 1 F tau)
       = Inr \<lparr>rings = [((\<lambda>ring. move ring tau) ^^ n) (ActiveRing_init (1 / 10) F (1 / 10))],
              pairs = [], dt = tau\<rparr>"
    using ticks_no_pairs [OF one, of n]
    by (simp add: rings_Simulator_init dt_Simulator_init one)
  show ?thesis
    using three one run by (simp add: length_pairs_init nth_pairs_init)
qed

text \<open>The chain of four rings: three pairs, the highest indices first.\<close>

theorem pairs_reverse_order_witness:
  "(1::int) \<le> 4
   \<and> pairs (Simulator_init 4 10 (1 / 100)) = [(2, 3), (1, 2), (0, 1)]
   \<and> length (pairs (Simulator_init 4 10 (1 / 100))) = nat (4 - 1)
   \<and> ticks 0 (Simulator_init 1 10 (1 / 100))
       = Inr \<lparr>rings = [ActiveRing_init (1 / 10) 10 (1 / 10)], pairs = [], dt = 1 / 100\<rparr>"
  using pairs_reverse_order [of 4 10 "1 / 100" 0]
  by (simp add: pairs_Simulator_init py_range_def upto.simps)

subsection \<open>One tick\<close>

lemmas move_defs = move_def dispatch_move_def PassiveRing_move_def ActiveRing_move_def g_def

lemma getitem_in_range:
  "0 \<le> i \<Longrightarrow> i < int (length h) \<Longrightarrow> getitem h i = Inr (nat i)"
  by (simp add: getitem_def Let_def)

text \<open>A loop that meets no pair farther apart than \<open>r1 + r2\<close> changes nothing.\<close>

lemma update_pairs_slack:
  assumes "\<forall>(i, j) \<in> set ps.
             0 \<le> i \<and> i < int (length h) \<and> 0 \<le> j \<and> j < int (length h)
           \<and> \<bar>y (h ! nat i) - y (h ! nat j)\<bar> \<le> r (h ! nat i) + r (h ! nat j)"
  shows "update_pairs ps h = Inr h"
  using assms
proof (induction ps)
  case Nil
  show ?case by simp
next
  case (Cons p ps)
  obtain i j where p: "p = (i, j)" by (cases p)
  from Cons.prems p have here:
    "0 \<le> i" "i < int (length h)" "0 \<le> j" "j < int (length h)"
    "\<bar>y (h ! nat i) - y (h ! nat j)\<bar> \<le> r (h ! nat i) + r (h ! nat j)"
    by simp_all
  from Cons.prems have rest: "update_pairs ps h = Inr h"
    by (intro Cons.IH) simp
  show ?case
    using here rest by (simp add: p getitem_in_range)
qed

text \<open>
  Claim C1 as stated does not hold; the test of the source is the other way round.
  Two rings \<open>0.9\<close> apart with radii \<open>0.1\<close> do not overlap, and the loop does not skip
  them: it changes the list. Two rings \<open>0.1\<close> apart do overlap, and the loop does not
  call \<open>collide\<close> on them.
\<close>

theorem update_pairs_overlap_counterexample:
  "r ([PassiveRing_init (1 / 10) (1 / 10),
       (ActiveRing_init (1 / 10) 10 (1 / 10))\<lparr>y := 1, vy := 1\<rparr>] ! 0)
     + r ([PassiveRing_init (1 / 10) (1 / 10),
           (ActiveRing_init (1 / 10) 10 (1 / 10))\<lparr>y := 1, vy := 1\<rparr>] ! 1)
     < \<bar>y ([PassiveRing_init (1 / 10) (1 / 10),
             (ActiveRing_init (1 / 10) 10 (1 / 10))\<lparr>y := 1, vy := 1\<rparr>] ! 0)
        - y ([PassiveRing_init (1 / 10) (1 / 10),
              (ActiveRing_init (1 / 10) 10 (1 / 10))\<lparr>y := 1, vy := 1\<rparr>] ! 1)\<bar>
   \<and> update_pairs [(0, 1)] [PassiveRing_init (1 / 10) (1 / 10),
                            (ActiveRing_init (1 / 10) 10 (1 / 10))\<lparr>y := 1, vy := 1\<rparr>]
       \<noteq> Inr [PassiveRing_init (1 / 10) (1 / 10),
               (ActiveRing_init (1 / 10) 10 (1 / 10))\<lparr>y := 1, vy := 1\<rparr>]
   \<and> \<bar>y ([PassiveRing_init (1 / 10) (1 / 10),
           (ActiveRing_init (1 / 10) 10 (1 / 10))\<lparr>y := 1 / 5, vy := 1\<rparr>] ! 0)
      - y ([PassiveRing_init (1 / 10) (1 / 10),
            (ActiveRing_init (1 / 10) 10 (1 / 10))\<lparr>y := 1 / 5, vy := 1\<rparr>] ! 1)\<bar>
     \<le> r ([PassiveRing_init (1 / 10) (1 / 10),
            (ActiveRing_init (1 / 10) 10 (1 / 10))\<lparr>y := 1 / 5, vy := 1\<rparr>] ! 0)
       + r ([PassiveRing_init (1 / 10) (1 / 10),
             (ActiveRing_init (1 / 10) 10 (1 / 10))\<lparr>y := 1 / 5, vy := 1\<rparr>] ! 1)
   \<and> update_pairs [(0, 1)] [PassiveRing_init (1 / 10) (1 / 10),
                            (ActiveRing_init (1 / 10) 10 (1 / 10))\<lparr>y := 1 / 5, vy := 1\<rparr>]
       \<noteq> Inr (collide [PassiveRing_init (1 / 10) (1 / 10),
                        (ActiveRing_init (1 / 10) 10 (1 / 10))\<lparr>y := 1 / 5, vy := 1\<rparr>] 0 1)"
  by (simp add: getitem_def ring_inits collide_def Let_def)

text \<open>
  Claim C1, amended. In the second loop of \<open>update\<close>, for a pair \<open>(i, j)\<close> of \<open>pairs\<close>
  whose indices denote rings of the list: if \<open>|y_i - y_j| \<le> r_i + r_j\<close> the pair is
  skipped, and otherwise (\<open>|y_i - y_j| > r_i + r_j\<close>) \<open>collide\<close> is called on it, which
  mutates these two rings in place: the list keeps its length and every other ring.
\<close>

theorem update_pairs_step:
  assumes "getitem h i = Inr ring1" "getitem h j = Inr ring2"
  shows "(\<bar>y (h ! ring1) - y (h ! ring2)\<bar> \<le> r (h ! ring1) + r (h ! ring2) \<longrightarrow>
            update_pairs ((i, j) # ps) h = update_pairs ps h)
       \<and> (r (h ! ring1) + r (h ! ring2) < \<bar>y (h ! ring1) - y (h ! ring2)\<bar> \<longrightarrow>
            update_pairs ((i, j) # ps) h = update_pairs ps (collide h ring1 ring2))
       \<and> length (collide h ring1 ring2) = length h
       \<and> (\<forall>k. k \<noteq> ring1 \<and> k \<noteq> ring2 \<longrightarrow> collide h ring1 ring2 ! k = h ! k)"
  using assms by (simp add: collide_length collide_other)

theorem update_pairs_step_witness:
  "getitem [PassiveRing_init (1 / 10) (1 / 10),
            (ActiveRing_init (1 / 10) 10 (1 / 10))\<lparr>y := 1, vy := 1\<rparr>] 0 = Inr 0
   \<and> getitem [PassiveRing_init (1 / 10) (1 / 10),
              (ActiveRing_init (1 / 10) 10 (1 / 10))\<lparr>y := 1, vy := 1\<rparr>] 1 = Inr 1
   \<and> update_pairs [(0, 1)] [PassiveRing_init (1 / 10) (1 / 10),
                            (ActiveRing_init (1 / 10) 10 (1 / 10))\<lparr>y := 1, vy := 1\<rparr>]
       = Inr (collide [PassiveRing_init (1 / 10) (1 / 10),
                       (ActiveRing_init (1 / 10) 10 (1 / 10))\<lparr>y := 1, vy := 1\<rparr>] 0 1)
   \<and> update_pairs [(0, 1)] [PassiveRing_init (1 / 10) (1 / 10),
                            (ActiveRing_init (1 / 10) 10 (1 / 10))\<lparr>y := 1 / 5, vy := 1\<rparr>]
       = Inr [PassiveRing_init (1 / 10) (1 / 10),
              (ActiveRing_init (1 / 10) 10 (1 / 10))\<lparr>y := 1 / 5, vy := 1\<rparr>]"
  using update_pairs_step
      [of "[PassiveRing_init (1 / 10) (1 / 10),
            (ActiveRing_init (1 / 10) 10 (1 / 10))\<lparr>y := 1, vy := 1\<rparr>]" 0 0 1 1 "[]"]
    update_pairs_step
      [of "[PassiveRing_init (1 / 10) (1 / 10),
            (ActiveRing_init (1 / 10) 10 (1 / 10))\<lparr>y := 1 / 5, vy := 1\<rparr>]" 0 0 1 1 "[]"]
  by (simp add: getitem_def ring_inits)

text \<open>
  Claim C2 as stated does not hold. One tick of the constructed chain of two rings
  with \<open>F = 10\<close> and \<open>dt = 1\<close>: after the moves the rings are \<open>4.5\<close> apart, so they do not
  overlap, and the second loop changes them all the same.
\<close>

theorem update_changes_stretched_chain:
  "r (move (PassiveRing_init (1 / 10) (1 / 10)) 1)
     + r (move (ActiveRing_init (1 / 10) 10 (1 / 10)) 1)
     < \<bar>y (move (PassiveRing_init (1 / 10) (1 / 10)) 1)
        - y (move (ActiveRing_init (1 / 10) 10 (1 / 10)) 1)\<bar>
   \<and> update (Simulator_init 2 10 1)
       \<noteq> Inr \<lparr>rings = [move (PassiveRing_init (1 / 10) (1 / 10)) 1,
                       move (ActiveRing_init (1 / 10) 10 (1 / 10)) 1],
              pairs = [(0, 1)], dt = 1\<rparr>"
  by (simp add: update_def Simulator_init_def py_range_def upto.simps getitem_def
      collide_def move_defs ring_inits Let_def)

text \<open>
  Claim C2, amended. If, after the moves of a tick, every pair of \<open>pairs\<close> denotes two
  rings of the list that are at most \<open>r_i + r_j\<close> apart (\<open>|y_i - y_j| \<le> r_i + r_j\<close>), then
  the second loop is a no-op: \<open>update\<close> returns the rings exactly as the moves left
  them.
\<close>

theorem update_noop_when_slack:
  assumes "\<forall>(i, j) \<in> set (pairs self).
             0 \<le> i \<and> i < int (length (rings self)) \<and> 0 \<le> j \<and> j < int (length (rings self))
           \<and> \<bar>y (map (\<lambda>ring. move ring (dt self)) (rings self) ! nat i)
                - y (map (\<lambda>ring. move ring (dt self)) (rings self) ! nat j)\<bar>
               \<le> r (map (\<lambda>ring. move ring (dt self)) (rings self) ! nat i)
                 + r (map (\<lambda>ring. move ring (dt self)) (rings self) ! nat j)"
  shows "update self = Inr (self\<lparr>rings := map (\<lambda>ring. move ring (dt self)) (rings self)\<rparr>)"
proof -
  have "update_pairs (pairs self) (map (\<lambda>ring. move ring (dt self)) (rings self))
          = Inr (map (\<lambda>ring. move ring (dt self)) (rings self))"
    by (rule update_pairs_slack) (use assms in simp)
  then show ?thesis
    by (simp add: update_def Let_def)
qed

text \<open>The first tick of the constructed chain of two rings with \<open>dt = 0.01\<close>.\<close>

theorem update_noop_when_slack_witness:
  "update (Simulator_init 2 10 (1 / 100))
     = Inr \<lparr>rings = [move (PassiveRing_init (1 / 10) (1 / 10)) (1 / 100),
                     move (ActiveRing_init (1 / 10) 10 (1 / 10)) (1 / 100)],
            pairs = [(0, 1)], dt = 1 / 100\<rparr>
   \<and> \<bar>y (move (PassiveRing_init (1 / 10) (1 / 10)) (1 / 100))
      - y (move (ActiveRing_init (1 / 10) 10 (1 / 10)) (1 / 100))\<bar>
     \<le> r (move (PassiveRing_init (1 / 10) (1 / 10)) (1 / 100))
       + r (move (ActiveRing_init (1 / 10) 10 (1 / 10)) (1 / 100))"
  using update_noop_when_slack [of "Simulator_init 2 10 (1 / 100)"]
  by (simp add: rings_Simulator_init pairs_Simulator_init dt_Simulator_init py_range_def
      upto.simps move_defs ring_inits Let_def power2_eq_square Simulator_init_def)

end
